theory Spec2Isabelle
  imports Complex_Main
begin

section \<open>Python primitives used by the transcription service\<close>

text \<open>
  Python \<open>str\<close> values are modelled as \<open>string\<close>, one \<open>char\<close> per code point below 256;
  Python \<open>float\<close> seconds and scores are modelled by exact rationals, Python \<open>int\<close> by \<open>int\<close>.
  A dictionary key that may be missing is an \<open>option\<close> field: \<open>None\<close> is "key absent".
\<close>

definition py_isspace :: "char \<Rightarrow> bool" where
  \<comment> \<open>\<open>str.isspace\<close> on one code point below 256\<close>
  "py_isspace c = (c \<in> set [CHR 0x09, CHR 0x0A, CHR 0x0B, CHR 0x0C, CHR 0x0D,
                            CHR 0x1C, CHR 0x1D, CHR 0x1E, CHR 0x1F, CHR 0x20,
                            CHR 0x85, CHR 0xA0])"

definition py_strip :: "string \<Rightarrow> string" where
  \<comment> \<open>\<open>s.strip()\<close>\<close>
  "py_strip s = rev (dropWhile py_isspace (rev (dropWhile py_isspace s)))"

fun startswith :: "string \<Rightarrow> string \<Rightarrow> bool" where
  "startswith s [] = True"
| "startswith [] (p # ps) = False"
| "startswith (c # cs) (p # ps) = (c = p \<and> startswith cs ps)"

function py_remove :: "string \<Rightarrow> string \<Rightarrow> string" where
  \<comment> \<open>\<open>s.replace(old, "")\<close>: every non-overlapping occurrence of \<open>old\<close>, left to right\<close>
  "py_remove old [] = []"
| "py_remove old (c # cs) =
     (if old \<noteq> [] \<and> startswith (c # cs) old
      then py_remove old (drop (length old - 1) cs)
      else c # py_remove old cs)"
  by pat_completeness auto
termination
  by (relation "measure (\<lambda>(old, s). length s)") auto

definition is_digit :: "char \<Rightarrow> bool" where
  "is_digit c = (c \<in> set ''0123456789'')"

definition digit_val :: "char \<Rightarrow> int" where
  "digit_val c = int (of_char c) - 48"

fun valid_int_body :: "string \<Rightarrow> bool" where
  \<comment> \<open>decimal digits, single underscores allowed between two digits\<close>
  "valid_int_body [] = False"
| "valid_int_body [c] = is_digit c"
| "valid_int_body (c # d # cs) =
     (is_digit c \<and> (if d = CHR ''_'' then valid_int_body cs else valid_int_body (d # cs)))"

definition int_body_val :: "string \<Rightarrow> int" where
  "int_body_val b = foldl (\<lambda>acc c. 10 * acc + digit_val c) 0 (filter is_digit b)"

definition py_int :: "string \<Rightarrow> int option" where
  \<comment> \<open>\<open>int(s)\<close>; \<open>None\<close> is the \<open>ValueError\<close>\<close>
  "py_int s =
     (case py_strip s of
        [] \<Rightarrow> None
      | c # cs \<Rightarrow>
          if c = CHR ''-'' then (if valid_int_body cs then Some (- int_body_val cs) else None)
          else if c = CHR ''+'' then (if valid_int_body cs then Some (int_body_val cs) else None)
          else if valid_int_body (c # cs) then Some (int_body_val (c # cs)) else None)"

fun digits :: "nat \<Rightarrow> string" where
  "digits n =
     (if n < 10 then [''0123456789'' ! n]
      else digits (n div 10) @ [''0123456789'' ! (n mod 10)])"

declare digits.simps [simp del]

definition py_str_int :: "int \<Rightarrow> string" where
  \<comment> \<open>the decimal rendering of an \<open>int\<close> inside an f-string\<close>
  "py_str_int i = (if i < 0 then CHR ''-'' # digits (nat (- i)) else digits (nat i))"

fun py_join :: "string \<Rightarrow> string list \<Rightarrow> string" where
  \<comment> \<open>\<open>sep.join(xs)\<close>\<close>
  "py_join sep [] = []"
| "py_join sep [x] = x"
| "py_join sep (x # y # ys) = x @ sep @ py_join sep (y # ys)"

fun py_split_nl :: "string \<Rightarrow> string list" where
  \<comment> \<open>\<open>s.split("\n")\<close>: the newline-separated lines; the empty string has the one line \<open>""\<close>\<close>
  "py_split_nl [] = [[]]"
| "py_split_nl (c # cs) =
     (if c = CHR 0x0A then [] # py_split_nl cs
      else (case py_split_nl cs of [] \<Rightarrow> [[c]] | l # ls \<Rightarrow> (c # l) # ls))"

fun py_split_ws :: "string \<Rightarrow> string list" where
  \<comment> \<open>\<open>s.split()\<close>: the maximal runs of non-whitespace\<close>
  "py_split_ws [] = []"
| "py_split_ws (c # cs) =
     (if py_isspace c then py_split_ws cs
      else (case cs of
              [] \<Rightarrow> [[c]]
            | d # ds \<Rightarrow> if py_isspace d then [c] # py_split_ws cs
                        else (case py_split_ws cs of [] \<Rightarrow> [[c]] | t # ts \<Rightarrow> (c # t) # ts)))"

definition round_half_even :: "rat \<Rightarrow> int" where
  "round_half_even x =
     (let f = \<lfloor>x\<rfloor>; d = x - of_int f
      in if d < 1 / 2 then f else if 1 / 2 < d then f + 1 else if even f then f else f + 1)"

definition py_round :: "rat \<Rightarrow> nat \<Rightarrow> rat" where
  \<comment> \<open>\<open>round(x, n)\<close> on the exact value: the nearest multiple of \<open>10 ^ -n\<close>, ties to even\<close>
  "py_round x n = of_int (round_half_even (x * 10 ^ n)) / 10 ^ n"

definition py_trunc :: "rat \<Rightarrow> int" where
  \<comment> \<open>\<open>int(x)\<close> of a float: truncation towards zero\<close>
  "py_trunc x = (if 0 \<le> x then \<lfloor>x\<rfloor> else \<lceil>x\<rceil>)"


section \<open>Data model\<close>

text \<open>
  The transcript segments, words and utterances are Python dictionaries. A segment is the
  dictionary the transcription engine returns, to which \<open>diarize\<close> adds the key \<open>speaker\<close>.
\<close>

record word_entry =
  w_word :: string
  w_start :: "rat option"
  w_end :: "rat option"
  w_score :: "rat option"

record segment =
  seg_start :: "rat option"
  seg_end :: "rat option"
  seg_text :: "string option"
  seg_words :: "word_entry list option"
  seg_confidence :: "rat option"
  seg_speaker :: "string option"

record fword =
  fw_word :: string
  fw_start :: rat
  fw_end :: rat
  fw_confidence :: rat

record utterance =
  u_speaker :: int
  u_start :: rat
  u_end :: rat
  u_text :: string
  u_confidence :: rat
  u_words :: "fword list"

record transcript_json =
  utterances :: "utterance list"

section \<open>format_output.py\<close>

definition speaker_num :: "segment \<Rightarrow> int" where
  \<comment> \<open>\<open>int(speaker_label.replace("SPEAKER_", ""))\<close>, 0 on \<open>ValueError\<close>\<close>
  "speaker_num seg =
     (let speaker_label = (case seg_speaker seg of None \<Rightarrow> ''SPEAKER_00'' | Some l \<Rightarrow> l)
      in case py_int (py_remove ''SPEAKER_'' speaker_label) of Some n \<Rightarrow> n | None \<Rightarrow> 0)"

definition stripped_text :: "segment \<Rightarrow> string" where
  \<comment> \<open>\<open>segment.get("text", "").strip()\<close>\<close>
  "stripped_text seg = py_strip (case seg_text seg of None \<Rightarrow> [] | Some t \<Rightarrow> t)"

fun format_words :: "word_entry list \<Rightarrow> fword list" where
  \<comment> \<open>the loop over \<open>segment.get("words", [])\<close>\<close>
  "format_words [] = []"
| "format_words (w # ws) =
     (case (w_start w, w_end w) of
        (Some st, Some en) \<Rightarrow>
          \<lparr>fw_word = w_word w, fw_start = py_round st 3, fw_end = py_round en 3,
           fw_confidence = py_round (case w_score w of None \<Rightarrow> 0 | Some c \<Rightarrow> c) 4\<rparr>
            # format_words ws
      | _ \<Rightarrow> format_words ws)"

definition utterance_of :: "segment \<Rightarrow> utterance" where
  "utterance_of seg =
     \<lparr>u_speaker = speaker_num seg,
      u_start = py_round (case seg_start seg of None \<Rightarrow> 0 | Some x \<Rightarrow> x) 3,
      u_end = py_round (case seg_end seg of None \<Rightarrow> 0 | Some x \<Rightarrow> x) 3,
      u_text = stripped_text seg,
      u_confidence = py_round (case seg_confidence seg of None \<Rightarrow> 0 | Some x \<Rightarrow> x) 4,
      u_words = format_words (case seg_words seg of None \<Rightarrow> [] | Some ws \<Rightarrow> ws)\<rparr>"

fun format_loop :: "segment list \<Rightarrow> utterance list \<times> string list" where
  \<comment> \<open>the loop over the segments; returns \<open>(utterances, text_lines)\<close>\<close>
  "format_loop [] = ([], [])"
| "format_loop (seg # segs) =
     (if stripped_text seg = [] then format_loop segs
      else (case format_loop segs of
              (us, ls) \<Rightarrow>
                (utterance_of seg # us,
                 (''Speaker '' @ py_str_int (speaker_num seg) @ '': '' @ stripped_text seg) # ls)))"

definition format_output :: "segment list \<Rightarrow> string \<times> transcript_json \<times> utterance list" where
  "format_output diarized_segments =
     (if diarized_segments = [] then ([], \<lparr>utterances = []\<rparr>, [])
      else (case format_loop diarized_segments of
              (us, ls) \<Rightarrow> (py_join [CHR 0x0A] ls, \<lparr>utterances = us\<rparr>, us)))"

definition speaker_line :: "utterance \<Rightarrow> string" where
  \<comment> \<open>the line \<open>"Speaker {speaker}: {text}"\<close> of an utterance\<close>
  "speaker_line u = ''Speaker '' @ py_str_int (u_speaker u) @ '': '' @ u_text u"

definition has_timestamps :: "word_entry \<Rightarrow> bool" where
  \<comment> \<open>\<open>"start" in w and "end" in w\<close>\<close>
  "has_timestamps w = (w_start w \<noteq> None \<and> w_end w \<noteq> None)"


section \<open>The process: store, model caches and the outside world\<close>

text \<open>
  Segments are mutable dictionaries shared between the stages, so they live in a store
  from addresses to segments and the stages pass lists of addresses. Every call that
  leaves the process (model load, model run, download, transcoding, cleanup, callback)
  is appended to a trace. The results of those calls are the fields of \<open>world\<close>.
\<close>

type_synonym addr = nat

datatype exn = Exception string
  \<comment> \<open>a raised \<open>Exception\<close>; the string is \<open>str(e)\<close>\<close>

record turn =
  turn_speaker :: string
  turn_start :: rat
  turn_end :: rat

record whisper_result =
  res_language :: "string option"
  res_segments :: "segment list option"

record envelope =
  recording_id :: string
  status :: string
  error :: "string option"
  transcript_text :: "string option"
  transcript_json :: "transcript_json option"
  transcript_utterances :: "utterance list option"
  duration_seconds :: "rat option"
  language :: "string option"
  word_count :: "nat option"
  speaker_count :: "nat option"
  processing_seconds :: "int option"

datatype event =
    Load_whisper string
  | Run_whisper string "string option"
  | Load_pyannote string
  | Run_pyannote string "int option"
  | Download string string
  | Ffmpeg string string
  | Ffprobe string
  | Cleanup "string list"
  | Callback string string envelope

record world =
  hf_token :: "string option"
  from_pretrained :: "exn + unit"
  run_pyannote :: "string \<Rightarrow> int option \<Rightarrow> exn + turn list"
  load_model :: "string \<Rightarrow> exn + unit"
  run_whisper :: "string \<Rightarrow> string option \<Rightarrow> exn + whisper_result"
  download_file :: "string \<Rightarrow> string \<Rightarrow> exn + nat"
  ffmpeg :: "string \<Rightarrow> string \<Rightarrow> exn + unit"
  ffprobe :: "string \<Rightarrow> exn + rat option"
  time_start :: rat
  time_end :: rat

record state =
  heap :: "addr \<Rightarrow> segment"
  next_addr :: addr
  model_cache :: "string list"
  diarize_model :: bool
  trace :: "event list"

definition emit :: "event \<Rightarrow> state \<Rightarrow> state" where
  "emit e s = s\<lparr>trace := trace s @ [e]\<rparr>"

section \<open>diarize.py\<close>

definition overlap :: "rat \<Rightarrow> rat \<Rightarrow> turn \<Rightarrow> rat" where
  "overlap s_start s_end t =
     (let overlap_start = max s_start (turn_start t);
          overlap_end = min s_end (turn_end t)
      in max 0 (overlap_end - overlap_start))"

fun dict_add :: "string \<Rightarrow> rat \<Rightarrow> (string \<times> rat) list \<Rightarrow> (string \<times> rat) list" where
  \<comment> \<open>\<open>d[k] = d.get(k, 0) + v\<close> on an insertion-ordered dictionary\<close>
  "dict_add k v [] = [(k, 0 + v)]"
| "dict_add k v ((k', x) # d) = (if k' = k then (k', x + v) # d else (k', x) # dict_add k v d)"

fun accumulate :: "rat \<Rightarrow> rat \<Rightarrow> turn list \<Rightarrow> (string \<times> rat) list \<Rightarrow> (string \<times> rat) list" where
  \<comment> \<open>the loop over \<open>diarization.itertracks\<close> filling \<open>speaker_times\<close>\<close>
  "accumulate s_start s_end [] d = d"
| "accumulate s_start s_end (t # ts) d =
     (if 0 < overlap s_start s_end t
      then accumulate s_start s_end ts (dict_add (turn_speaker t) (overlap s_start s_end t) d)
      else accumulate s_start s_end ts d)"

fun max_from :: "string \<times> rat \<Rightarrow> (string \<times> rat) list \<Rightarrow> string" where
  \<comment> \<open>\<open>max\<close> keeps the first of the largest: a later item replaces it only when greater\<close>
  "max_from (k, v) [] = k"
| "max_from (k, v) ((k', v') # d) = (if v < v' then max_from (k', v') d else max_from (k, v) d)"

definition dominant_speaker :: "turn list \<Rightarrow> segment \<Rightarrow> string" where
  \<comment> \<open>the body of the loop over the segments: the label written to \<open>seg["speaker"]\<close>\<close>
  "dominant_speaker turns seg =
     (let s_start = (case seg_start seg of None \<Rightarrow> 0 | Some x \<Rightarrow> x);
          s_end = (case seg_end seg of None \<Rightarrow> s_start | Some x \<Rightarrow> x);
          speaker_times = accumulate s_start s_end turns []
      in case speaker_times of
           [] \<Rightarrow> ''SPEAKER_00''
         | kv # d \<Rightarrow> max_from kv d)"

fun set_speakers :: "(segment \<Rightarrow> string) \<Rightarrow> addr list \<Rightarrow> (addr \<Rightarrow> segment) \<Rightarrow> (addr \<Rightarrow> segment)" where
  \<comment> \<open>\<open>for seg in segments: seg["speaker"] = f(seg)\<close>, in place\<close>
  "set_speakers f [] h = h"
| "set_speakers f (a # as) h = set_speakers f as (h(a := (h a)\<lparr>seg_speaker := Some (f (h a))\<rparr>))"

definition truthy :: "string option \<Rightarrow> bool" where
  \<comment> \<open>truth value of an optional string: \<open>None\<close> and \<open>""\<close> are false\<close>
  "truthy x = (case x of None \<Rightarrow> False | Some t \<Rightarrow> t \<noteq> [])"


definition diarize_kwargs :: "int option \<Rightarrow> int option" where
  \<comment> \<open>\<open>num_speakers\<close> is passed on only when it is a positive integer\<close>
  "diarize_kwargs num_speakers =
     (case num_speakers of None \<Rightarrow> None | Some n \<Rightarrow> if 0 < n then Some n else None)"

definition diarize :: "world \<Rightarrow> string \<Rightarrow> addr list \<Rightarrow> int option \<Rightarrow> state \<Rightarrow> (exn + addr list) \<times> state" where
  "diarize w wav_path segments num_speakers s =
     (if segments = [] then (Inr segments, s)
      else if \<not> truthy (hf_token w)
      then (Inr segments, s\<lparr>heap := set_speakers (\<lambda>_. ''SPEAKER_00'') segments (heap s)\<rparr>)
      else
        (case (if diarize_model s then (Inr (), s)
               else (case from_pretrained w of
                       Inl e \<Rightarrow> (Inl e, emit (Load_pyannote ''pyannote/speaker-diarization-3.1'') s)
                     | Inr _ \<Rightarrow> (Inr (), (emit (Load_pyannote ''pyannote/speaker-diarization-3.1'') s)
                                            \<lparr>diarize_model := True\<rparr>))) of
           (Inl e, s1) \<Rightarrow> (Inl e, s1)
         | (Inr _, s1) \<Rightarrow>
             (let s2 = emit (Run_pyannote wav_path (diarize_kwargs num_speakers)) s1
              in case run_pyannote w wav_path (diarize_kwargs num_speakers) of
                   Inr turns \<Rightarrow>
                     (Inr segments, s2\<lparr>heap := set_speakers (dominant_speaker turns) segments (heap s2)\<rparr>)
                 | Inl e \<Rightarrow>
                     (Inr segments, s2\<lparr>heap := set_speakers (\<lambda>_. ''SPEAKER_00'') segments (heap s2)\<rparr>))))"




section \<open>transcribe.py\<close>

definition model_map :: "string \<Rightarrow> string option" where
  "model_map k =
     (if k = ''large-v3'' then Some ''large''
      else if k = ''large-v2'' then Some ''large''
      else None)"

definition resolve_model :: "string \<Rightarrow> string" where
  \<comment> \<open>\<open>model_map.get(model_size, model_size)\<close>\<close>
  "resolve_model model_size = (case model_map model_size of Some m \<Rightarrow> m | None \<Rightarrow> model_size)"

definition or_else :: "string option \<Rightarrow> string \<Rightarrow> string" where
  \<comment> \<open>\<open>x or d\<close>\<close>
  "or_else x d = (case x of None \<Rightarrow> d | Some t \<Rightarrow> if t = [] then d else t)"

fun alloc :: "segment list \<Rightarrow> state \<Rightarrow> addr list \<times> state" where
  \<comment> \<open>the engine's fresh segment dictionaries enter the store\<close>
  "alloc [] s = ([], s)"
| "alloc (x # xs) s =
     (case alloc xs (s\<lparr>heap := (heap s)(next_addr s := x), next_addr := Suc (next_addr s)\<rparr>) of
        (as, s') \<Rightarrow> (next_addr s # as, s'))"

definition transcribe :: "world \<Rightarrow> string \<Rightarrow> string \<Rightarrow> string option \<Rightarrow> state
    \<Rightarrow> (exn + addr list \<times> string) \<times> state" where
  "transcribe w wav_path model_size lang s =
     (let model_name = resolve_model model_size
      in case (if model_name \<in> set (model_cache s) then (Inr (), s)
               else (case load_model w model_name of
                       Inl e \<Rightarrow> (Inl e, emit (Load_whisper model_name) s)
                     | Inr _ \<Rightarrow> (Inr (), (emit (Load_whisper model_name) s)
                                            \<lparr>model_cache := model_cache s @ [model_name]\<rparr>))) of
           (Inl e, s1) \<Rightarrow> (Inl e, s1)
         | (Inr _, s1) \<Rightarrow>
             (let language_option = (if truthy lang then lang else None);
                  s2 = emit (Run_whisper wav_path language_option) s1
              in case run_whisper w wav_path language_option of
                   Inl e \<Rightarrow> (Inl e, s2)
                 | Inr result \<Rightarrow>
                     (let detected_language =
                            (case res_language result of
                               Some l \<Rightarrow> l
                             | None \<Rightarrow> or_else lang ''en'');
                          segments = (case res_segments result of Some xs \<Rightarrow> xs | None \<Rightarrow> [])
                      in case alloc segments s2 of
                           (refs, s3) \<Rightarrow> (Inr (refs, detected_language), s3))))"

section \<open>download.py\<close>

fun py_contains :: "string \<Rightarrow> string \<Rightarrow> bool" where
  \<comment> \<open>\<open>sub in s\<close>\<close>
  "py_contains [] sub = (sub = [])"
| "py_contains (c # cs) sub = (startswith (c # cs) sub \<or> py_contains cs sub)"

definition download_audio :: "world \<Rightarrow> string \<Rightarrow> string \<Rightarrow> state \<Rightarrow> (exn + string) \<times> state" where
  "download_audio w audio_url rid s =
     (let ext = (if py_contains audio_url ''.webm'' then ''.webm''
                 else if py_contains audio_url ''.mp4'' then ''.mp4''
                 else if py_contains audio_url ''.wav'' then ''.wav''
                 else ''.mp3'');
          path = ''/tmp/'' @ rid @ ''_input'' @ ext;
          s1 = emit (Download audio_url path) s
      in case download_file w audio_url path of
           Inl e \<Rightarrow> (Inl e, s1)
         | Inr _ \<Rightarrow> (Inr path, s1))"

definition cleanup_temp_files :: "string \<Rightarrow> state \<Rightarrow> state" where
  \<comment> \<open>globs the two patterns and removes the matches; a failed removal is only logged\<close>
  "cleanup_temp_files rid s =
     emit (Cleanup [''/tmp/'' @ rid @ ''_input*'', ''/tmp/'' @ rid @ ''_audio*'']) s"

section \<open>handler.py\<close>

record job =
  job_recording_id :: string
  job_audio_url :: "string option"
  job_video_url :: "string option"
  job_callback_url :: string
  job_callback_secret :: string
  job_language :: "string option"
  job_model_size :: "string option"
  job_num_speakers :: "int option"

definition convert_to_wav :: "world \<Rightarrow> string \<Rightarrow> string \<Rightarrow> state \<Rightarrow> (exn + string) \<times> state" where
  "convert_to_wav w input_path rid s =
     (let wav_path = ''/tmp/'' @ rid @ ''_audio.wav'';
          s1 = emit (Ffmpeg input_path wav_path) s
      in case ffmpeg w input_path wav_path of
           Inl e \<Rightarrow> (Inl e, s1)
         | Inr _ \<Rightarrow> (Inr wav_path, s1))"

definition get_audio_duration :: "world \<Rightarrow> string \<Rightarrow> state \<Rightarrow> (exn + rat) \<times> state" where
  \<comment> \<open>output that is not a number gives 0.0; a failing subprocess call raises\<close>
  "get_audio_duration w wav_path s =
     (let s1 = emit (Ffprobe wav_path) s
      in case ffprobe w wav_path of
           Inl e \<Rightarrow> (Inl e, s1)
         | Inr None \<Rightarrow> (Inr 0, s1)
         | Inr (Some x) \<Rightarrow> (Inr (py_round x 2), s1))"

definition send_callback :: "string \<Rightarrow> string \<Rightarrow> envelope \<Rightarrow> state \<Rightarrow> state" where
  \<comment> \<open>one signed POST of the payload; a refused or failed request is only logged\<close>
  "send_callback callback_url secret payload s = emit (Callback callback_url secret payload) s"

definition try_body :: "world \<Rightarrow> job \<Rightarrow> envelope \<Rightarrow> state \<Rightarrow> (exn + envelope) \<times> state" where
  \<comment> \<open>the body of the \<open>try\<close> block: \<open>Inl\<close> is the exception it raises, \<open>Inr\<close> the result it fills in\<close>
  "try_body w ev result s =
     (let rid = job_recording_id ev;
          audio_url = (if truthy (job_audio_url ev) then job_audio_url ev else job_video_url ev)
      in if \<not> truthy audio_url then (Inl (Exception ''No audio_url or video_url provided''), s)
         else
           (case download_audio w (the audio_url) rid s of
              (Inl e, s1) \<Rightarrow> (Inl e, s1)
            | (Inr local_path, s1) \<Rightarrow>
           (case convert_to_wav w local_path rid s1 of
              (Inl e, s2) \<Rightarrow> (Inl e, s2)
            | (Inr wav_path, s2) \<Rightarrow>
           (case transcribe w wav_path
                   (case job_model_size ev of None \<Rightarrow> ''medium'' | Some m \<Rightarrow> m)
                   (job_language ev) s2 of
              (Inl e, s3) \<Rightarrow> (Inl e, s3)
            | (Inr (segments, detected_language), s3) \<Rightarrow>
           (case diarize w wav_path segments (job_num_speakers ev) s3 of
              (Inl e, s4) \<Rightarrow> (Inl e, s4)
            | (Inr diarized_segments, s4) \<Rightarrow>
           (case format_output (map (heap s4) diarized_segments) of
              (text, json, utts) \<Rightarrow>
           (case get_audio_duration w wav_path s4 of
              (Inl e, s5) \<Rightarrow> (Inl e, s5)
            | (Inr duration, s5) \<Rightarrow>
                (Inr (result\<lparr>status := ''success'',
                             transcript_text := Some text,
                             transcript_json := Some json,
                             transcript_utterances := Some utts,
                             duration_seconds := Some duration,
                             language := Some detected_language,
                             word_count := Some (length (py_split_ws text)),
                             speaker_count := Some (length (remdups (map u_speaker utts))),
                             processing_seconds := Some (py_trunc (time_end w - time_start w))\<rparr>),
                 s5))))))))"

definition process_transcription :: "world \<Rightarrow> job \<Rightarrow> state \<Rightarrow> envelope \<times> state" where
  "process_transcription w ev s =
     (let rid = job_recording_id ev;
          result = \<lparr>recording_id = rid, status = ''error'', error = None,
                    transcript_text = None, transcript_json = None,
                    transcript_utterances = None, duration_seconds = None, language = None,
                    word_count = None, speaker_count = None, processing_seconds = None\<rparr>
      in case (case try_body w ev result s of
                 (Inr result', s1) \<Rightarrow> (result', s1)
               | (Inl (Exception msg), s1) \<Rightarrow>
                   (result\<lparr>error := Some msg,
                           processing_seconds := Some (py_trunc (time_end w - time_start w))\<rparr>, s1)) of
           (result', s1) \<Rightarrow>
             (result',
              send_callback (job_callback_url ev) (job_callback_secret ev) result'
                (cleanup_temp_files rid s1)))"

fun is_final :: "event \<Rightarrow> bool" where
  \<comment> \<open>the events of the \<open>finally\<close> block\<close>
  "is_final (Cleanup _) = True"
| "is_final (Callback _ _ _) = True"
| "is_final _ = False"


definition quiet :: "state \<Rightarrow> state \<Rightarrow> bool" where
  \<comment> \<open>from \<open>s\<close> to \<open>s'\<close> the trace only grows, by events other than those of \<open>finally\<close>\<close>
  "quiet s s' = (\<exists>evs. trace s' = trace s @ evs \<and> filter is_final evs = [])"

section \<open>Example inputs\<close>

definition example_segment :: segment where
  \<comment> \<open>a segment over \<open>[0, 10]\<close> as the engine returns it, without a speaker\<close>
  "example_segment =
     \<lparr>seg_start = Some 0, seg_end = Some 10, seg_text = Some '' hello world '',
      seg_words = Some [\<lparr>w_word = ''hello'', w_start = Some (1 / 4), w_end = Some (12345 / 10000),
                          w_score = Some (987654 / 1000000)\<rparr>,
                        \<lparr>w_word = ''world'', w_start = Some 2, w_end = None, w_score = None\<rparr>],
      seg_confidence = None, seg_speaker = None\<rparr>"

definition example_turns :: "turn list" where
  "example_turns =
     [\<lparr>turn_speaker = ''A'', turn_start = 0, turn_end = 6\<rparr>,
      \<lparr>turn_speaker = ''B'', turn_start = 6, turn_end = 10\<rparr>]"

definition example_world :: world where
  \<comment> \<open>every outside call succeeds; the diarization credential is set\<close>
  "example_world =
     \<lparr>hf_token = Some ''hf_secret'',
      from_pretrained = Inr (),
      run_pyannote = (\<lambda>_ _. Inr example_turns),
      load_model = (\<lambda>_. Inr ()),
      run_whisper = (\<lambda>_ _. Inr \<lparr>res_language = None, res_segments = Some [example_segment]\<rparr>),
      download_file = (\<lambda>_ _. Inr 1024),
      ffmpeg = (\<lambda>_ _. Inr ()),
      ffprobe = (\<lambda>_. Inr (Some 10)),
      time_start = 100,
      time_end = 103 + 1 / 2\<rparr>"

definition example_state :: state where
  \<comment> \<open>a fresh process whose store holds the example segment at address 0\<close>
  "example_state =
     \<lparr>heap = (\<lambda>_. example_segment), next_addr = 1, model_cache = [],
      diarize_model = False, trace = []\<rparr>"

definition example_job :: job where
  "example_job =
     \<lparr>job_recording_id = ''rec1'', job_audio_url = Some ''https://host/a.webm'',
      job_video_url = None, job_callback_url = ''https://host/cb'',
      job_callback_secret = ''secret'', job_language = None,
      job_model_size = Some ''large-v3'', job_num_speakers = Some 2\<rparr>"


definition multiline_segment :: segment where
  \<comment> \<open>a segment whose text has a line break inside\<close>
  "multiline_segment =
     \<lparr>seg_start = Some 0, seg_end = Some 2, seg_text = Some [CHR ''a'', CHR 0x0A, CHR ''b''],
      seg_words = None, seg_confidence = None, seg_speaker = Some ''SPEAKER_01''\<rparr>"

definition plain_segment :: segment where
  "plain_segment =
     \<lparr>seg_start = Some 2, seg_end = Some 3, seg_text = Some ''c'',
      seg_words = None, seg_confidence = None, seg_speaker = Some ''SPEAKER_00''\<rparr>"

definition blank_segment :: segment where
  \<comment> \<open>a segment whose text is only whitespace\<close>
  "blank_segment =
     \<lparr>seg_start = Some 3, seg_end = Some 4, seg_text = Some ''  '',
      seg_words = None, seg_confidence = None, seg_speaker = Some ''SPEAKER_00''\<rparr>"

section \<open>Rounding, splitting and joining\<close>

lemma round_half_even_close: "\<bar>of_int (round_half_even x) - x\<bar> \<le> 1 / 2"
proof -
  have lo: "of_int \<lfloor>x\<rfloor> \<le> x" and hi: "x < of_int \<lfloor>x\<rfloor> + 1" by linarith+
  show ?thesis
    unfolding round_half_even_def Let_def using lo hi
    by (simp add: abs_le_iff)
qed

lemma py_round_grid: "py_round x n * 10 ^ n = of_int (round_half_even (x * 10 ^ n))"
  by (simp add: py_round_def)

lemma py_round_close: "\<bar>py_round x n - x\<bar> \<le> 1 / (2 * 10 ^ n)"
proof -
  have p: "(0::rat) < 10 ^ n" by simp
  have "\<bar>py_round x n - x\<bar> * 10 ^ n = \<bar>(py_round x n - x) * 10 ^ n\<bar>"
    by (simp add: abs_mult)
  also have "\<dots> = \<bar>of_int (round_half_even (x * 10 ^ n)) - x * 10 ^ n\<bar>"
    by (simp add: py_round_def left_diff_distrib)
  also have "\<dots> \<le> 1 / 2" by (rule round_half_even_close)
  finally have "\<bar>py_round x n - x\<bar> * 10 ^ n \<le> 1 / 2" .
  then have "\<bar>py_round x n - x\<bar> \<le> (1 / 2) / 10 ^ n"
    using p by (simp add: pos_le_divide_eq)
  then show ?thesis by simp
qed

lemma split_nl_no_nl: "CHR 0x0A \<notin> set x \<Longrightarrow> py_split_nl x = [x]"
  by (induction x) auto

lemma split_nl_append:
  "CHR 0x0A \<notin> set x \<Longrightarrow> py_split_nl (x @ CHR 0x0A # r) = x # py_split_nl r"
  by (induction x) (auto split: list.splits)

lemma split_nl_join:
  "ls \<noteq> [] \<Longrightarrow> \<forall>l\<in>set ls. CHR 0x0A \<notin> set l \<Longrightarrow> py_split_nl (py_join [CHR 0x0A] ls) = ls"
proof (induction ls)
  case Nil then show ?case by simp
next
  case (Cons x xs)
  show ?case
  proof (cases xs)
    case Nil then show ?thesis using Cons.prems by (simp add: split_nl_no_nl)
  next
    case (Cons y ys)
    then show ?thesis using Cons.IH Cons.prems by (simp add: split_nl_append)
  qed
qed

lemma digits_no_nl: "CHR 0x0A \<notin> set (digits n)"
proof (induction n rule: digits.induct)
  case (1 n)
  have d: "\<And>k. k < 10 \<Longrightarrow> ''0123456789'' ! k \<noteq> CHR 0x0A"
  proof -
    fix k :: nat assume "k < 10"
    then have "k \<in> {0,1,2,3,4,5,6,7,8,9}" by auto
    then show "''0123456789'' ! k \<noteq> CHR 0x0A" by auto
  qed
  show ?case
  proof (cases "n < 10")
    case True then show ?thesis using d[of n] by (subst digits.simps) simp
  next
    case False
    then show ?thesis using 1 d[of "n mod 10"] by (subst digits.simps) simp
  qed
qed

lemma speaker_line_no_nl: "CHR 0x0A \<notin> set (u_text u) \<Longrightarrow> CHR 0x0A \<notin> set (speaker_line u)"
  by (simp add: speaker_line_def py_str_int_def digits_no_nl)


section \<open>The formatting loop\<close>

lemma format_loop_eq:
  "format_loop segs =
     (map utterance_of (filter (\<lambda>s. stripped_text s \<noteq> []) segs),
      map (speaker_line \<circ> utterance_of) (filter (\<lambda>s. stripped_text s \<noteq> []) segs))"
  by (induction segs) (auto simp: speaker_line_def utterance_of_def)

lemma format_words_eq:
  "format_words ws =
     map (\<lambda>w. \<lparr>fw_word = w_word w, fw_start = py_round (the (w_start w)) 3,
                fw_end = py_round (the (w_end w)) 3,
                fw_confidence = py_round (case w_score w of None \<Rightarrow> 0 | Some c \<Rightarrow> c) 4\<rparr>)
         (filter has_timestamps ws)"
  by (induction ws) (auto simp: has_timestamps_def split: option.splits)

lemma format_output_eq:
  "format_output segs =
     (py_join [CHR 0x0A] (map speaker_line (map utterance_of (filter (\<lambda>seg. stripped_text seg \<noteq> []) segs))),
      \<lparr>utterances = map utterance_of (filter (\<lambda>seg. stripped_text seg \<noteq> []) segs)\<rparr>,
      map utterance_of (filter (\<lambda>seg. stripped_text seg \<noteq> []) segs))"
  by (cases segs) (simp_all add: format_output_def format_loop_eq del: format_loop.simps)

lemma speaker_num_default: "seg_speaker seg = Some ''SPEAKER_00'' \<Longrightarrow> speaker_num seg = 0"
proof -
  assume a: "seg_speaker seg = Some ''SPEAKER_00''"
  have "py_int (py_remove ''SPEAKER_'' ''SPEAKER_00'') = Some 0" by code_simp
  then show ?thesis using a by (simp add: speaker_num_def)
qed

text \<open>
  Claim C5, as amended. For a segment list in which no trimmed segment text contains a
  newline: the utterance array inside the JSON object is the flat utterance list; the
  utterances are the segments whose trimmed text is not empty, in segment order, so a
  segment with empty trimmed text is absent from both and from the transcript text; when
  there is at least one utterance, the newline-separated lines of the transcript text
  are, in the same order, the lines \<open>"Speaker N: text"\<close> of the utterances, so the three
  representations have the same count; and when there is no utterance the transcript text
  is the empty string.
\<close>

theorem format_output_representations:
  assumes "\<forall>seg\<in>set segs. CHR 0x0A \<notin> set (stripped_text seg)"
  shows "utterances (fst (snd (format_output segs))) = snd (snd (format_output segs)) \<and>
         snd (snd (format_output segs))
           = map utterance_of (filter (\<lambda>seg. stripped_text seg \<noteq> []) segs) \<and>
         (snd (snd (format_output segs)) \<noteq> [] \<longrightarrow>
            py_split_nl (fst (format_output segs)) = map speaker_line (snd (snd (format_output segs))) \<and>
            length (py_split_nl (fst (format_output segs))) = length (snd (snd (format_output segs))) \<and>
            length (utterances (fst (snd (format_output segs)))) = length (snd (snd (format_output segs)))) \<and>
         (snd (snd (format_output segs)) = [] \<longrightarrow> fst (format_output segs) = [])"
proof -
  define us where "us = map utterance_of (filter (\<lambda>seg. stripped_text seg \<noteq> []) segs)"
  have fo: "format_output segs = (py_join [CHR 0x0A] (map speaker_line us), \<lparr>utterances = us\<rparr>, us)"
    by (simp add: format_output_eq us_def)
  have "CHR 0x0A \<notin> set (u_text u)" if "u \<in> set us" for u
    using that assms by (auto simp: us_def utterance_of_def)
  then have nl: "\<forall>l\<in>set (map speaker_line us). CHR 0x0A \<notin> set l"
    by (auto simp: speaker_line_no_nl)
  have lines: "py_split_nl (py_join [CHR 0x0A] (map speaker_line us)) = map speaker_line us"
    if "us \<noteq> []"
  proof -
    have "map speaker_line us \<noteq> []" using that by simp
    then show ?thesis using nl by (rule split_nl_join)
  qed
  have a: "utterances (fst (snd (format_output segs))) = snd (snd (format_output segs))"
    by (simp add: fo)
  have b: "snd (snd (format_output segs))
             = map utterance_of (filter (\<lambda>seg. stripped_text seg \<noteq> []) segs)"
    by (simp add: fo us_def)
  have c: "snd (snd (format_output segs)) \<noteq> [] \<longrightarrow>
            py_split_nl (fst (format_output segs)) = map speaker_line (snd (snd (format_output segs))) \<and>
            length (py_split_nl (fst (format_output segs))) = length (snd (snd (format_output segs))) \<and>
            length (utterances (fst (snd (format_output segs)))) = length (snd (snd (format_output segs)))"
    using lines by (simp add: fo)
  have d: "snd (snd (format_output segs)) = [] \<longrightarrow> fst (format_output segs) = []"
    by (simp add: fo)
  show ?thesis using a b c d by blast
qed

theorem format_output_representations_witness:
  "CHR 0x0A \<notin> set (stripped_text plain_segment) \<and>
   CHR 0x0A \<notin> set (stripped_text blank_segment) \<and>
   CHR 0x0A \<notin> set (stripped_text example_segment) \<and>
   utterances (fst (snd (format_output [plain_segment, blank_segment, example_segment])))
     = [utterance_of plain_segment, utterance_of example_segment] \<and>
   snd (snd (format_output [plain_segment, blank_segment, example_segment]))
     = [utterance_of plain_segment, utterance_of example_segment] \<and>
   py_split_nl (fst (format_output [plain_segment, blank_segment, example_segment]))
     = [''Speaker 0: c'', ''Speaker 0: hello world'']"
proof -
  let ?segs = "[plain_segment, blank_segment, example_segment]"
  have st: "stripped_text plain_segment = ''c''" "stripped_text blank_segment = []"
    "stripped_text example_segment = ''hello world''"
    by (simp_all add: stripped_text_def plain_segment_def blank_segment_def example_segment_def
          py_strip_def py_isspace_def)
  have h: "\<forall>seg\<in>set ?segs. CHR 0x0A \<notin> set (stripped_text seg)"
    by (simp add: st)
  have f: "filter (\<lambda>seg. stripped_text seg \<noteq> []) ?segs = [plain_segment, example_segment]"
    by (simp add: st)
  have l1: "speaker_line (utterance_of plain_segment) = ''Speaker 0: c''" by code_simp
  have l2: "speaker_line (utterance_of example_segment) = ''Speaker 0: hello world''" by code_simp
  from format_output_representations[OF h] have
    a: "utterances (fst (snd (format_output ?segs))) = snd (snd (format_output ?segs))" and
    b: "snd (snd (format_output ?segs))
          = map utterance_of (filter (\<lambda>seg. stripped_text seg \<noteq> []) ?segs)" and
    c: "snd (snd (format_output ?segs)) \<noteq> [] \<longrightarrow>
          py_split_nl (fst (format_output ?segs)) = map speaker_line (snd (snd (format_output ?segs)))"
    by blast+
  have us: "snd (snd (format_output ?segs)) = [utterance_of plain_segment, utterance_of example_segment]"
    using b unfolding f by simp
  have js: "utterances (fst (snd (format_output ?segs)))
              = [utterance_of plain_segment, utterance_of example_segment]"
    using a us by simp
  have ls: "py_split_nl (fst (format_output ?segs)) = [''Speaker 0: c'', ''Speaker 0: hello world'']"
    using c unfolding us by (simp add: l1 l2)
  show ?thesis using st js us ls by simp
qed

text \<open>
  Claim C5 as stated fails on the empty segment list: the transcript text is the empty
  string, which splits into one empty line, against no utterance in the JSON object and in
  the flat list. It also fails for a segment text with a line break inside: three lines
  against two utterances.
\<close>

theorem format_output_lines_counterexample:
  "py_split_nl (fst (format_output [])) = [[]] \<and>
   length (py_split_nl (fst (format_output []))) = 1 \<and>
   length (utterances (fst (snd (format_output [])))) = 0 \<and>
   length (snd (snd (format_output []))) = 0 \<and>
   length (py_split_nl (fst (format_output [multiline_segment, plain_segment]))) = 3 \<and>
   length (utterances (fst (snd (format_output [multiline_segment, plain_segment])))) = 2 \<and>
   length (snd (snd (format_output [multiline_segment, plain_segment]))) = 2"
  by code_simp

text \<open>
  Claim C6 as stated fails for a segment whose text has a line break inside: one
  utterance, two newline-separated lines. It also fails when no segment has text: no
  utterance, and the empty transcript text, which splits into one empty line.
\<close>

theorem transcript_text_lines_counterexample:
  "py_split_nl (fst (format_output [multiline_segment])) = [''Speaker 1: a'', ''b''] \<and>
   length (snd (snd (format_output [multiline_segment]))) = 1 \<and>
   py_split_nl (fst (format_output [blank_segment])) = [[]] \<and>
   length (snd (snd (format_output [blank_segment]))) = 0"
  by code_simp

text \<open>
  Claim C6, as amended. When no trimmed segment text contains a newline and there is at
  least one utterance, the newline-separated lines of the transcript text are as many as
  the utterances, and line \<open>i\<close> is \<open>"Speaker {utterances[i].speaker}: {utterances[i].text}"\<close>.
\<close>

theorem transcript_text_lines:
  assumes "\<forall>seg\<in>set segs. CHR 0x0A \<notin> set (stripped_text seg)"
      and "snd (snd (format_output segs)) \<noteq> []"
  shows "length (py_split_nl (fst (format_output segs))) = length (snd (snd (format_output segs))) \<and>
         (\<forall>i<length (snd (snd (format_output segs))).
             py_split_nl (fst (format_output segs)) ! i =
               ''Speaker '' @ py_str_int (u_speaker (snd (snd (format_output segs)) ! i)) @ '': '' @
               u_text (snd (snd (format_output segs)) ! i))"
proof -
  define us where "us = map utterance_of (filter (\<lambda>seg. stripped_text seg \<noteq> []) segs)"
  have fo: "format_output segs = (py_join [CHR 0x0A] (map speaker_line us), \<lparr>utterances = us\<rparr>, us)"
    by (simp add: format_output_eq us_def)
  have ne: "map speaker_line us \<noteq> []" using assms(2) fo by simp
  have "CHR 0x0A \<notin> set (u_text u)" if "u \<in> set us" for u
    using that assms(1) by (auto simp: us_def utterance_of_def)
  then have nl: "\<forall>l\<in>set (map speaker_line us). CHR 0x0A \<notin> set l"
    by (auto simp: speaker_line_no_nl)
  have sp: "py_split_nl (fst (format_output segs)) = map speaker_line us"
    using split_nl_join[OF ne nl] fo by simp
  show ?thesis unfolding sp by (simp add: fo speaker_line_def)
qed

theorem transcript_text_lines_witness:
  "CHR 0x0A \<notin> set (stripped_text plain_segment) \<and>
   CHR 0x0A \<notin> set (stripped_text blank_segment) \<and>
   CHR 0x0A \<notin> set (stripped_text example_segment) \<and>
   snd (snd (format_output [plain_segment, blank_segment, example_segment])) \<noteq> [] \<and>
   length (py_split_nl (fst (format_output [plain_segment, blank_segment, example_segment]))) = 2 \<and>
   length (snd (snd (format_output [plain_segment, blank_segment, example_segment]))) = 2 \<and>
   py_split_nl (fst (format_output [plain_segment, blank_segment, example_segment])) ! 1
     = ''Speaker 0: hello world''"
proof -
  let ?segs = "[plain_segment, blank_segment, example_segment]"
  have h1: "\<forall>seg\<in>set ?segs. CHR 0x0A \<notin> set (stripped_text seg)"
    by (simp add: stripped_text_def plain_segment_def blank_segment_def example_segment_def
          py_strip_def py_isspace_def)
  have us: "snd (snd (format_output ?segs)) = [utterance_of plain_segment, utterance_of example_segment]"
    by (simp add: format_output_eq stripped_text_def plain_segment_def blank_segment_def
          example_segment_def py_strip_def py_isspace_def)
  have h2: "snd (snd (format_output ?segs)) \<noteq> []" by (simp add: us)
  have l2: "''Speaker '' @ py_str_int (u_speaker (utterance_of example_segment)) @ '': '' @
             u_text (utterance_of example_segment) = ''Speaker 0: hello world''" by code_simp
  from transcript_text_lines[OF h1 h2] have
    len: "length (py_split_nl (fst (format_output ?segs))) = length (snd (snd (format_output ?segs)))" and
    line: "\<forall>i<length (snd (snd (format_output ?segs))).
             py_split_nl (fst (format_output ?segs)) ! i =
               ''Speaker '' @ py_str_int (u_speaker (snd (snd (format_output ?segs)) ! i)) @ '': '' @
               u_text (snd (snd (format_output ?segs)) ! i)" by blast+
  have "py_split_nl (fst (format_output ?segs)) ! 1 = ''Speaker 0: hello world''"
    using line[rule_format, of 1] l2 by (simp add: us)
  then show ?thesis using h1 h2 len by (simp add: us)
qed

text \<open>
  Claim C7. For the segments that reach the output (non-empty trimmed text), in order, the
  word list of the utterance holds exactly the words of the segment with both \<open>start\<close> and
  \<open>end\<close> present, each with start and end rounded to 3 decimals and the score rounded to 4
  decimals, 0 when the score is absent; the text of the utterance is the trimmed segment
  text whatever its words are. Rounding to \<open>n\<close> decimals yields a multiple of \<open>10 ^ -n\<close> at
  distance at most half a unit of the last decimal.
\<close>

theorem format_output_words:
  "map u_words (snd (snd (format_output segs))) =
     map (\<lambda>seg. map (\<lambda>w. \<lparr>fw_word = w_word w,
                          fw_start = py_round (the (w_start w)) 3,
                          fw_end = py_round (the (w_end w)) 3,
                          fw_confidence = py_round (case w_score w of None \<Rightarrow> 0 | Some c \<Rightarrow> c) 4\<rparr>)
                     (filter (\<lambda>w. w_start w \<noteq> None \<and> w_end w \<noteq> None)
                        (case seg_words seg of None \<Rightarrow> [] | Some ws \<Rightarrow> ws)))
         (filter (\<lambda>seg. stripped_text seg \<noteq> []) segs) \<and>
   map u_text (snd (snd (format_output segs))) =
     map stripped_text (filter (\<lambda>seg. stripped_text seg \<noteq> []) segs) \<and>
   (\<forall>x n. (\<exists>k::int. py_round x n * 10 ^ n = of_int k) \<and> \<bar>py_round x n - x\<bar> \<le> 1 / (2 * 10 ^ n))"
proof -
  have fw: "has_timestamps = (\<lambda>w. w_start w \<noteq> None \<and> w_end w \<noteq> None)"
    by (simp add: has_timestamps_def fun_eq_iff)
  have a: "map u_words (snd (snd (format_output segs))) =
     map (\<lambda>seg. format_words (case seg_words seg of None \<Rightarrow> [] | Some ws \<Rightarrow> ws))
         (filter (\<lambda>seg. stripped_text seg \<noteq> []) segs)"
    by (simp add: format_output_eq utterance_of_def comp_def)
  have b: "map u_text (snd (snd (format_output segs))) =
     map stripped_text (filter (\<lambda>seg. stripped_text seg \<noteq> []) segs)"
    by (simp add: format_output_eq utterance_of_def comp_def)
  have c: "\<forall>x n. (\<exists>k::int. py_round x n * 10 ^ n = of_int k) \<and> \<bar>py_round x n - x\<bar> \<le> 1 / (2 * 10 ^ n)"
    using py_round_grid py_round_close by blast
  show ?thesis using a b c by (simp add: format_words_eq fw)
qed

text \<open>
  A word without \<open>end\<close> is left out of the word list while the text of its segment is kept.
\<close>

theorem format_output_words_witness:
  "map u_words (snd (snd (format_output [example_segment]))) =
     [[\<lparr>fw_word = ''hello'', fw_start = 1 / 4, fw_end = 617 / 500, fw_confidence = 9877 / 10000\<rparr>]] \<and>
   map u_text (snd (snd (format_output [example_segment]))) = [''hello world'']"
proof -
  have st: "filter (\<lambda>seg. stripped_text seg \<noteq> []) [example_segment] = [example_segment]"
    by (simp add: stripped_text_def example_segment_def py_strip_def py_isspace_def)
  have w: "map (\<lambda>w. \<lparr>fw_word = w_word w,
                          fw_start = py_round (the (w_start w)) 3,
                          fw_end = py_round (the (w_end w)) 3,
                          fw_confidence = py_round (case w_score w of None \<Rightarrow> 0 | Some c \<Rightarrow> c) 4\<rparr>)
                     (filter (\<lambda>w. w_start w \<noteq> None \<and> w_end w \<noteq> None)
                        (case seg_words example_segment of None \<Rightarrow> [] | Some ws \<Rightarrow> ws))
           = [\<lparr>fw_word = ''hello'', fw_start = 1 / 4, fw_end = 617 / 500, fw_confidence = 9877 / 10000\<rparr>]"
    by code_simp
  have t: "stripped_text example_segment = ''hello world''" by code_simp
  note a = conjunct1[OF format_output_words[of "[example_segment]"], unfolded st list.map w]
  note b = conjunct1[OF conjunct2[OF format_output_words[of "[example_segment]"]],
      unfolded st list.map t]
  show ?thesis using a b by (rule conjI)
qed


section \<open>The overlap assignment\<close>

lemma set_speakers_frame: "a \<notin> set as \<Longrightarrow> set_speakers f as h a = h a"
  by (induction as arbitrary: h) auto

lemma set_speakers_other_fields:
  "(set_speakers f as h a)\<lparr>seg_speaker := x\<rparr> = (h a)\<lparr>seg_speaker := x\<rparr>"
  by (induction as arbitrary: h) auto

lemma set_speakers_member:
  assumes inv: "\<And>seg x. f (seg\<lparr>seg_speaker := x\<rparr>) = f seg"
  shows "a \<in> set as \<Longrightarrow> set_speakers f as h a = (h a)\<lparr>seg_speaker := Some (f (h a))\<rparr>"
proof (induction as arbitrary: h)
  case Nil then show ?case by simp
next
  case (Cons b bs)
  show ?case
  proof (cases "a \<in> set bs")
    case True
    define h' where "h' = h(b := (h b)\<lparr>seg_speaker := Some (f (h b))\<rparr>)"
    have "set_speakers f (b # bs) h a = set_speakers f bs h' a" by (simp add: h'_def)
    also have "\<dots> = (h' a)\<lparr>seg_speaker := Some (f (h' a))\<rparr>" by (rule Cons.IH[OF True])
    also have "\<dots> = (h a)\<lparr>seg_speaker := Some (f (h a))\<rparr>"
      by (cases "a = b") (simp_all add: h'_def inv)
    finally show ?thesis .
  next
    case False
    then have "a = b" using Cons.prems by simp
    then show ?thesis using False by (simp add: set_speakers_frame)
  qed
qed




















section \<open>Speaker assignment by diarize\<close>

lemma heap_emit: "heap (emit e s) = heap s"
  by (simp add: emit_def)

lemma diarize_model_emit: "diarize_model (emit e s) = diarize_model s"
  by (simp add: emit_def)

lemma trace_emit: "trace (emit e s) = trace s @ [e]"
  by (simp add: emit_def)




text \<open>
  Claim C4. Without the credential (\<open>HF_TOKEN\<close> unset or empty) \<open>diarize\<close> loads and
  runs no model (the trace and the cached model are unchanged), writes \<open>SPEAKER_00\<close> to
  every segment of the list, and every utterance \<open>format_output\<close> builds from those
  segments has speaker index 0.
\<close>

theorem diarize_unconfigured_default_speaker:
  assumes "\<not> truthy (hf_token w)"
  shows "\<exists>s'. diarize w wav_path segments num_speakers s = (Inr segments, s') \<and>
              trace s' = trace s \<and> diarize_model s' = diarize_model s \<and>
              (\<forall>a\<in>set segments. seg_speaker (heap s' a) = Some ''SPEAKER_00'') \<and>
              (\<forall>u\<in>set (snd (snd (format_output (map (heap s') segments)))). u_speaker u = 0)"
proof (cases "segments = []")
  case True
  then show ?thesis by (simp add: diarize_def format_output_def)
next
  case False
  define s' where "s' = s\<lparr>heap := set_speakers (\<lambda>_. ''SPEAKER_00'') segments (heap s)\<rparr>"
  have d: "diarize w wav_path segments num_speakers s = (Inr segments, s')"
    using assms False by (simp add: diarize_def s'_def)
  have sp: "seg_speaker (heap s' a) = Some ''SPEAKER_00''" if "a \<in> set segments" for a
    using set_speakers_member[of "\<lambda>_. ''SPEAKER_00''" a segments "heap s"] that
    by (simp add: s'_def)
  have "u_speaker u = 0" if "u \<in> set (snd (snd (format_output (map (heap s') segments))))" for u
  proof -
    from that obtain seg where "seg \<in> set (map (heap s') segments)" "u = utterance_of seg"
      by (auto simp: format_output_eq)
    then obtain a where "a \<in> set segments" "u = utterance_of (heap s' a)" by auto
    then show ?thesis using sp[of a] by (simp add: utterance_of_def speaker_num_default)
  qed
  then show ?thesis using d sp by (auto simp: s'_def)
qed

theorem diarize_unconfigured_default_speaker_witness:
  "\<not> truthy (hf_token (example_world\<lparr>hf_token := None\<rparr>)) \<and>
   (\<exists>s'. diarize (example_world\<lparr>hf_token := None\<rparr>) ''a.wav'' [0] None example_state = (Inr [0], s') \<and>
         trace s' = [] \<and> \<not> diarize_model s' \<and>
         seg_speaker (heap s' 0) = Some ''SPEAKER_00'' \<and>
         map u_speaker (snd (snd (format_output (map (heap s') [0])))) = [0])"
proof -
  have h: "\<not> truthy (hf_token (example_world\<lparr>hf_token := None\<rparr>))" by (simp add: truthy_def)
  from diarize_unconfigured_default_speaker[OF h, of "''a.wav''" "[0]" None example_state]
  obtain s' where
    d: "diarize (example_world\<lparr>hf_token := None\<rparr>) ''a.wav'' [0] None example_state = (Inr [0], s')" and
    t: "trace s' = trace example_state" and m: "diarize_model s' = diarize_model example_state" and
    sp: "seg_speaker (heap s' 0) = Some ''SPEAKER_00''" and
    us: "\<forall>u\<in>set (snd (snd (format_output (map (heap s') [0])))). u_speaker u = 0"
    by auto
  have hs: "heap s' 0 = example_segment\<lparr>seg_speaker := Some ''SPEAKER_00''\<rparr>"
    using d h by (simp add: diarize_def example_state_def split: if_splits) auto
  have "stripped_text (heap s' 0) \<noteq> []"
    unfolding hs by (simp add: stripped_text_def example_segment_def py_strip_def py_isspace_def)
  then have "length (snd (snd (format_output (map (heap s') [0])))) = 1"
    by (simp add: format_output_eq)
  then obtain u where u: "snd (snd (format_output (map (heap s') [0]))) = [u]"
    by (cases "snd (snd (format_output (map (heap s') [0])))") auto
  then have "u_speaker u = 0" using us by simp
  then show ?thesis using h d t m sp u by (auto simp: example_state_def)
qed


section \<open>What diarize writes, and which failures it absorbs\<close>

lemma diarize_heap_cases:
  "heap (snd (diarize w wav_path segments n s)) = heap s \<or>
   (\<exists>f. heap (snd (diarize w wav_path segments n s)) = set_speakers f segments (heap s))"
proof (cases "segments = []")
  case True
  then show ?thesis by (simp add: diarize_def)
next
  case False
  then show ?thesis
    by (cases "from_pretrained w"; cases "run_pyannote w wav_path (diarize_kwargs n)")
       (auto simp: diarize_def Let_def heap_emit
             intro: exI[of _ "\<lambda>_. ''SPEAKER_00''"] exI[of _ "dominant_speaker turns" for turns]
             split: if_splits)
qed

text \<open>
  Claim C8, as amended. \<open>diarize\<close> writes to the segment objects it is given, in place, but
  only their \<open>speaker\<close> key: start, end, text, words and confidence of every segment in the
  store are what they were, and a segment that is not in the list is untouched.
  \<open>format_output\<close> is a function of the segments' contents and returns no store: it only
  reads them.
\<close>

theorem diarize_writes_only_speaker:
  "seg_start (heap (snd (diarize w wav_path segments n s)) a) = seg_start (heap s a) \<and>
   seg_end (heap (snd (diarize w wav_path segments n s)) a) = seg_end (heap s a) \<and>
   seg_text (heap (snd (diarize w wav_path segments n s)) a) = seg_text (heap s a) \<and>
   seg_words (heap (snd (diarize w wav_path segments n s)) a) = seg_words (heap s a) \<and>
   seg_confidence (heap (snd (diarize w wav_path segments n s)) a) = seg_confidence (heap s a) \<and>
   (a \<notin> set segments \<longrightarrow> heap (snd (diarize w wav_path segments n s)) a = heap s a)"
proof -
  consider "heap (snd (diarize w wav_path segments n s)) = heap s"
    | f where "heap (snd (diarize w wav_path segments n s)) = set_speakers f segments (heap s)"
    using diarize_heap_cases by blast
  then show ?thesis
  proof cases
    case 1 then show ?thesis by simp
  next
    case (2 f)
    note h = 2
    have "(set_speakers f segments (heap s) a)\<lparr>seg_speaker := None\<rparr>
            = (heap s a)\<lparr>seg_speaker := None\<rparr>"
      by (rule set_speakers_other_fields)
    then have "seg_start (set_speakers f segments (heap s) a) = seg_start (heap s a) \<and>
               seg_end (set_speakers f segments (heap s) a) = seg_end (heap s a) \<and>
               seg_text (set_speakers f segments (heap s) a) = seg_text (heap s a) \<and>
               seg_words (set_speakers f segments (heap s) a) = seg_words (heap s a) \<and>
               seg_confidence (set_speakers f segments (heap s) a) = seg_confidence (heap s a)"
      by (metis segment.select_convs segment.surjective segment.update_convs(6))
    then show ?thesis unfolding h by (simp add: set_speakers_frame)
  qed
qed

theorem diarize_writes_only_speaker_witness:
  "seg_start (heap (snd (diarize example_world ''a.wav'' [0] (Some 2) example_state)) 0) = Some 0 \<and>
   seg_end (heap (snd (diarize example_world ''a.wav'' [0] (Some 2) example_state)) 0) = Some 10 \<and>
   seg_text (heap (snd (diarize example_world ''a.wav'' [0] (Some 2) example_state)) 0)
     = Some '' hello world '' \<and>
   (1::nat) \<notin> set [0] \<and>
   heap (snd (diarize example_world ''a.wav'' [0] (Some 2) example_state)) 1 = example_segment"
proof -
  have h: "heap example_state a = example_segment" for a by (simp add: example_state_def)
  have n: "(1::nat) \<notin> set [0]" by simp
  show ?thesis
    using diarize_writes_only_speaker[of example_world "''a.wav''" "[0]" "Some 2" example_state 0]
          diarize_writes_only_speaker[of example_world "''a.wav''" "[0]" "Some 2" example_state 1]
    by (simp add: h example_segment_def)
qed

text \<open>
  Claim C8 as stated fails: the segment object at address 0 has no speaker before
  \<open>diarize\<close> and the speaker \<open>A\<close> after it.
\<close>

theorem diarize_mutates_segments_counterexample:
  "seg_speaker (heap example_state 0) = None \<and>
   seg_speaker (heap (snd (diarize example_world ''a.wav'' [0] (Some 2) example_state)) 0) = Some ''A'' \<and>
   heap (snd (diarize example_world ''a.wav'' [0] (Some 2) example_state)) 0 \<noteq> heap example_state 0"
  by code_simp

text \<open>
  A failure of the model run is caught inside \<open>diarize\<close>: the segments come back with
  the default speaker.
\<close>

lemma diarize_run_failure_absorbed:
  assumes "truthy (hf_token w)"
      and "diarize_model s \<or> from_pretrained w = Inr ()"
      and "run_pyannote w wav_path (diarize_kwargs num_speakers) = Inl e"
  shows "\<exists>s'. diarize w wav_path segments num_speakers s = (Inr segments, s') \<and>
              (\<forall>a\<in>set segments. seg_speaker (heap s' a) = Some ''SPEAKER_00'')"
proof (cases "segments = []")
  case True then show ?thesis by (simp add: diarize_def)
next
  case False
  have sp: "seg_speaker (set_speakers (\<lambda>_. ''SPEAKER_00'') segments h a) = Some ''SPEAKER_00''"
    if "a \<in> set segments" for a h
    using set_speakers_member[of "\<lambda>_. ''SPEAKER_00''" a segments h] that by simp
  show ?thesis using assms False
    by (cases "diarize_model s") (auto simp: diarize_def Let_def heap_emit sp)
qed

text \<open>
  Claim C2 at a failing model load: with the credential set and no cached model, an
  exception of \<open>Pipeline.from_pretrained\<close> leaves \<open>diarize\<close>, and the pipeline run
  ends in an envelope with status \<open>error\<close> carrying that message.
\<close>

theorem diarize_load_failure_is_fatal:
  "fst (diarize (example_world\<lparr>from_pretrained := Inl (Exception ''model download failed'')\<rparr>)
          ''a.wav'' [0] None example_state) = Inl (Exception ''model download failed'') \<and>
   status (fst (process_transcription
                  (example_world\<lparr>from_pretrained := Inl (Exception ''model download failed'')\<rparr>)
                  example_job example_state)) = ''error'' \<and>
   error (fst (process_transcription
                  (example_world\<lparr>from_pretrained := Inl (Exception ''model download failed'')\<rparr>)
                  example_job example_state)) = Some ''model download failed'' \<and>
   transcript_utterances (fst (process_transcription
                  (example_world\<lparr>from_pretrained := Inl (Exception ''model download failed'')\<rparr>)
                  example_job example_state)) = None"
  by code_simp


section \<open>The detected language\<close>

text \<open>
  Claim C10. When the model is cached or loads, the engine returns a result without a
  \<open>language\<close> entry, and the caller passed no language, \<open>transcribe\<close> returns and the
  detected language it returns is \<open>en\<close>.
\<close>

theorem transcribe_default_language:
  assumes "resolve_model model_size \<in> set (model_cache s) \<or> load_model w (resolve_model model_size) = Inr ()"
      and "run_whisper w wav_path None = Inr result"
      and "res_language result = None"
  shows "\<exists>segments s'. transcribe w wav_path model_size None s = (Inr (segments, ''en''), s')"
  using assms
  by (cases "resolve_model model_size \<in> set (model_cache s)";
      cases "alloc (case res_segments result of None \<Rightarrow> [] | Some xs \<Rightarrow> xs)
               (emit (Run_whisper wav_path None) s)";
      cases "alloc (case res_segments result of None \<Rightarrow> [] | Some xs \<Rightarrow> xs)
               (emit (Run_whisper wav_path None)
                  ((emit (Load_whisper (resolve_model model_size)) s)
                     \<lparr>model_cache := model_cache s @ [resolve_model model_size]\<rparr>))")
     (auto simp: transcribe_def Let_def truthy_def or_else_def)

theorem transcribe_default_language_witness:
  "(resolve_model ''large-v3'' \<in> set (model_cache example_state) \<or>
      load_model example_world (resolve_model ''large-v3'') = Inr ()) \<and>
   run_whisper example_world ''a.wav'' None = Inr \<lparr>res_language = None, res_segments = Some [example_segment]\<rparr> \<and>
   res_language \<lparr>res_language = None, res_segments = Some [example_segment]\<rparr> = None \<and>
   (\<exists>segments s'. transcribe example_world ''a.wav'' ''large-v3'' None example_state
        = (Inr (segments, ''en''), s'))"
proof -
  have h1: "resolve_model ''large-v3'' \<in> set (model_cache example_state) \<or>
      load_model example_world (resolve_model ''large-v3'') = Inr ()"
    by (simp add: example_world_def)
  have h2: "run_whisper example_world ''a.wav'' None
              = Inr \<lparr>res_language = None, res_segments = Some [example_segment]\<rparr>"
    by (simp add: example_world_def)
  have h3: "res_language \<lparr>res_language = None, res_segments = Some [example_segment]\<rparr> = None"
    by simp
  show ?thesis using transcribe_default_language[OF h1 h2 h3] h1 h2 h3 by blast
qed


section \<open>The pipeline\<close>




lemma quiet_same_trace: "trace s' = trace s \<Longrightarrow> quiet s s'"
  by (simp add: quiet_def)











end
